theory Spec2Isabelle
  imports Complex_Main
begin

section \<open>Python values\<close>

text \<open>
  A Python \<open>str\<close> is a sequence of Unicode code points, so a text is a list of natural
  numbers (\<open>ord c\<close> of each character). ASCII literals of the source are written through
  \<open>u\<close>; the accented letters of the French messages are given by their code point.

  Python's \<open>/\<close> on integers yields a binary64 float. Scores are modelled as exact
  rationals: the rounding of binary64 arithmetic is outside this embedding.
\<close>

type_synonym pystr = "nat list"

definition u :: "string \<Rightarrow> pystr" where
  "u s = map of_char s"

datatype pyval = PNone | PInt int | PFloat rat | PStr pystr | PBytes "nat list"

fun str_nat :: "nat \<Rightarrow> pystr" where
  "str_nat n = (if n < 10 then [48 + n] else str_nat (n div 10) @ [48 + n mod 10])"

declare str_nat.simps [simp del]

definition str_int :: "int \<Rightarrow> pystr" where
  "str_int i = (if i < 0 then 45 # str_nat (nat (- i)) else str_nat (nat i))"

fun py_join :: "pystr \<Rightarrow> pystr list \<Rightarrow> pystr" where
  "py_join sep [] = []"
| "py_join sep [x] = x"
| "py_join sep (x # y # ys) = x @ sep @ py_join sep (y # ys)"

section \<open>DocumentProcessor: accumulator and diagnostic logger\<close>

record extraction_error =
  error_type :: pystr
  severity :: pystr
  message :: pystr
  details :: "(pystr \<times> pyval) list option"
  page_number :: int
  element_type :: "pystr option"
  suggested_fix :: pystr

text \<open>
  The instance state of \<open>DocumentProcessor\<close> that the scoring code reads and writes: the
  dictionary \<open>extraction_metrics\<close>, and the two attributes \<open>current_page_number\<close> and
  \<open>current_page_count\<close>, which do not exist (\<open>None\<close>) until something assigns them.
\<close>

record processor =
  total_elements_detected :: int
  total_elements_extracted :: int
  text_quality :: rat
  image_quality :: rat
  table_quality :: rat
  errors :: "extraction_error list"
  current_page_number :: "int option"
  current_page_count :: "int option"

definition init_processor :: processor where
  "init_processor =
     \<lparr> total_elements_detected = 0, total_elements_extracted = 0,
       text_quality = 0, image_quality = 0, table_quality = 0, errors = [],
       current_page_number = None, current_page_count = None \<rparr>"

definition apply_automatic_corrections ::
  "pystr \<Rightarrow> (pystr \<times> pyval) list option \<Rightarrow> pystr list" where
  "apply_automatic_corrections etype dets =
     (if etype = u ''encoding'' then
        [u ''R'' @ [233] @ u ''-encoder le document avec UTF-8'',
         u ''Utiliser un OCR avec d'' @ [233] @ u ''tection automatique d'' @ [39] @ u ''encodage'',
         u ''Convertir le document en PDF avant extraction'']
      else if etype = u ''image_extraction'' then
        [u ''Augmenter la r'' @ [233] @ u ''solution DPI pour l'' @ [39] @ u ''extraction'',
         u ''Utiliser un algorithme d'' @ [39] @ u ''am'' @ [233] @ u ''lioration d'' @ [39] @ u ''image'',
         u ''Convertir les images en format standard (PNG/JPEG)'']
      else if etype = u ''table_parsing'' then
        [u ''Appliquer un pr'' @ [233] @ u ''-traitement de d'' @ [233] @ u ''tection de bordures'',
         u ''Utiliser un algorithme sp'' @ [233] @ u ''cialis'' @ [233] @ u '' pour tableaux complexes'',
         u ''Convertir en format avec grille structur'' @ [233] @ u ''e'']
      else if etype = u ''text_ocr'' then
        [u ''Appliquer un filtre de d'' @ [233] @ u ''bruitage d'' @ [39] @ u ''image'',
         u ''Utiliser un mod'' @ [232] @ u ''le OCR plus avanc'' @ [233],
         u ''Am'' @ [233] @ u ''liorer la r'' @ [233] @ u ''solution du document source'']
      else if etype = u ''layout_analysis'' then
        [u ''Appliquer une d'' @ [233] @ u ''tection automatique de colonnes'',
         u ''Utiliser un algorithme de segmentation de page'',
         u ''R'' @ [233] @ u ''-analyser avec d'' @ [233] @ u ''tection de zones de texte'']
      else if etype = u ''font_detection'' then
        [u ''Normaliser les polices vers des '' @ [233] @ u ''quivalents standard'',
         u ''Utiliser une biblioth'' @ [232] @ u ''que de substitution de polices'',
         u ''Convertir en format texte uniforme'']
      else
        [u ''Retraiter le document avec des param'' @ [232] @ u ''tres optimis'' @ [233] @ u ''s'',
         u ''Utiliser un processeur alternatif'',
         u ''V'' @ [233] @ u ''rifier l'' @ [39] @ u ''int'' @ [233] @ u ''grit'' @ [233] @ u '' du fichier source''])"

text \<open>
  \<open>log_extraction_error\<close>: the optional arguments are options; \<open>None\<close> is Python's
  \<open>None\<close> default. The record is appended to \<open>extraction_metrics['errors']\<close>.
\<close>

definition log_extraction_error ::
  "processor \<Rightarrow> pystr \<Rightarrow> pystr \<Rightarrow> pystr \<Rightarrow> (pystr \<times> pyval) list option \<Rightarrow> int option \<Rightarrow>
     pystr option \<Rightarrow> pystr option \<Rightarrow> processor" where
  "log_extraction_error self etype sev msg dets page elem fix =
     (let page' = (case page of
                     None \<Rightarrow> (case current_page_number self of None \<Rightarrow> 1 | Some p \<Rightarrow> p)
                   | Some p \<Rightarrow> p);
          fix' = (case fix of
                    None \<Rightarrow> py_join (u ''; '') (take 2 (apply_automatic_corrections etype dets))
                  | Some f \<Rightarrow> f);
          error_data = \<lparr> error_type = etype, severity = sev, message = msg, details = dets,
                         page_number = page', element_type = elem, suggested_fix = fix' \<rparr>
      in self\<lparr> errors := errors self @ [error_data] \<rparr>)"

section \<open>Python string operations used by the scorers\<close>

text \<open>
  \<open>s.count(sub)\<close> counts non-overlapping occurrences from the left; \<open>sub in s\<close> is the
  substring test; \<open>s.split(sep)\<close> for a one-character separator always returns at least
  one piece; \<open>s.strip()\<close> removes leading and trailing whitespace, and \<open>s.split()\<close>
  returns the maximal runs of non-whitespace. Whitespace is the set of code points for
  which CPython's \<open>str.isspace\<close> holds.
\<close>

definition startswith :: "pystr \<Rightarrow> pystr \<Rightarrow> bool" where
  "startswith s sub = (take (length sub) s = sub)"

fun count_from :: "pystr \<Rightarrow> pystr \<Rightarrow> nat" where
  "count_from sub [] = 0"
| "count_from sub (c # cs) =
     (if startswith (c # cs) sub then Suc (count_from sub (drop (length sub - 1) cs))
      else count_from sub cs)"

definition py_count :: "pystr \<Rightarrow> pystr \<Rightarrow> nat" where
  "py_count sub s = (if sub = [] then length s + 1 else count_from sub s)"

fun py_contains :: "pystr \<Rightarrow> pystr \<Rightarrow> bool" where
  "py_contains sub [] = (sub = [])"
| "py_contains sub (c # cs) = (startswith (c # cs) sub \<or> py_contains sub cs)"

fun py_split :: "nat \<Rightarrow> pystr \<Rightarrow> pystr list" where
  "py_split sep [] = [[]]"
| "py_split sep (c # cs) =
     (if c = sep then [] # py_split sep cs
      else (case py_split sep cs of [] \<Rightarrow> [[c]] | l # ls \<Rightarrow> (c # l) # ls))"

definition py_isspace :: "nat \<Rightarrow> bool" where
  "py_isspace c =
     ((9 \<le> c \<and> c \<le> 13) \<or> (28 \<le> c \<and> c \<le> 32) \<or> c = 133 \<or> c = 160 \<or> c = 5760
      \<or> (8192 \<le> c \<and> c \<le> 8202) \<or> c = 8232 \<or> c = 8233 \<or> c = 8239 \<or> c = 8287
      \<or> c = 12288)"

definition py_strip :: "pystr \<Rightarrow> pystr" where
  "py_strip s = rev (dropWhile py_isspace (rev (dropWhile py_isspace s)))"

fun split_ws_from :: "pystr \<Rightarrow> pystr \<Rightarrow> pystr list" where
  "split_ws_from cur [] = (if cur = [] then [] else [cur])"
| "split_ws_from cur (c # cs) =
     (if py_isspace c then (if cur = [] then split_ws_from [] cs else cur # split_ws_from [] cs)
      else split_ws_from (cur @ [c]) cs)"

definition py_split_ws :: "pystr \<Rightarrow> pystr list" where
  "py_split_ws s = split_ws_from [] s"

section \<open>Quality scorer: text\<close>

text \<open>
  A character is corrupted when its code point exceeds 65535 or it occurs in the literal
  of line 87, which holds U+FFFD twice, U+25A1 and the question mark.
\<close>

definition corruption_markers :: pystr where
  "corruption_markers = [65533, 65533, 9633, 63]"

definition is_corrupted :: "nat \<Rightarrow> bool" where
  "is_corrupted c = (c > 65535 \<or> c \<in> set corruption_markers)"

definition corrupted_chars :: "pystr \<Rightarrow> nat" where
  "corrupted_chars extracted_text = length (filter is_corrupted extracted_text)"

definition corruption_penalty :: "pystr \<Rightarrow> rat" where
  "corruption_penalty extracted_text =
     min 50 ((of_nat (corrupted_chars extracted_text) / of_nat (length extracted_text)) * 100)"

definition empty_lines_ratio :: "pystr \<Rightarrow> rat" where
  "empty_lines_ratio extracted_text =
     (let lines = py_split 10 extracted_text;
          empty_lines = length (filter (\<lambda>line. py_strip line = []) lines)
      in of_nat empty_lines / of_nat (length lines))"

text \<open>
  The test of line 112; the literal \<open>0.3\<close> is taken as the rational 3/10.
\<close>

definition length_mismatch :: "pystr \<Rightarrow> int option \<Rightarrow> bool" where
  "length_mismatch extracted_text expected_length =
     (case expected_length of
        None \<Rightarrow> False
      | Some e \<Rightarrow> e \<noteq> 0 \<and> of_int \<bar>int (length extracted_text) - e\<bar> / of_int e > (3 / 10 :: rat))"

definition calculate_text_quality :: "processor \<Rightarrow> pystr \<Rightarrow> int option \<Rightarrow> rat \<times> processor" where
  "calculate_text_quality self extracted_text expected_length =
     (if extracted_text = [] then (0, self)
      else
        let quality_score = 100;
            (quality_score, self) =
              (if corrupted_chars extracted_text > 0 then
                 (quality_score - corruption_penalty extracted_text,
                  if corruption_penalty extracted_text > 10 then
                    log_extraction_error self (u ''encoding'') (u ''medium'')
                      (u ''D'' @ [233] @ u ''tection de ''
                         @ str_int (int (corrupted_chars extracted_text))
                         @ u '' caract'' @ [232] @ u ''res corrompus'')
                      (Some [(u ''corrupted_chars'', PInt (int (corrupted_chars extracted_text))),
                             (u ''total_chars'', PInt (int (length extracted_text)))])
                      None None
                      (Some (u ''V'' @ [233] @ u ''rifier l'' @ [39]
                               @ u ''encodage du document source''))
                  else self)
               else (quality_score, self));
            (quality_score, self) =
              (if empty_lines_ratio extracted_text > 1 / 2 then
                 (quality_score - 20,
                  log_extraction_error self (u ''layout_analysis'') (u ''low'')
                    (u ''Beaucoup de lignes vides d'' @ [233] @ u ''tect'' @ [233] @ u ''es'')
                    (Some [(u ''empty_lines_ratio'', PFloat (empty_lines_ratio extracted_text))])
                    None None
                    (Some (u ''Le document pourrait n'' @ [233] @ u ''cessiter un OCR plus pr''
                             @ [233] @ u ''cis'')))
               else (quality_score, self));
            (quality_score, self) =
              (if length_mismatch extracted_text expected_length then
                 (quality_score - 15,
                  log_extraction_error self (u ''text_ocr'') (u ''medium'')
                    (u ''Diff'' @ [233] @ u ''rence significative avec la longueur attendue'')
                    (Some [(u ''extracted_length'', PInt (int (length extracted_text))),
                           (u ''expected_length'',
                            (case expected_length of None \<Rightarrow> PNone | Some e \<Rightarrow> PInt e))])
                    None None None)
               else (quality_score, self))
        in (max 0 quality_score, self))"

section \<open>Quality scorer: images\<close>

text \<open>
  An image candidate is a dictionary; the scorer reads the keys \<open>data\<close>, \<open>width\<close> and
  \<open>height\<close>. A field is \<open>None\<close> when the key is absent and \<open>Some v\<close> when the key holds
  the Python value \<open>v\<close> (which may itself be Python's \<open>None\<close>, as the HTML image
  extractor stores for a missing attribute).
\<close>

record image_candidate =
  data :: "pyval option"
  width :: "pyval option"
  height :: "pyval option"

datatype py_exception = TypeError pystr | ZeroDivisionError pystr | LibraryError pystr

fun str_exc :: "py_exception \<Rightarrow> pystr" where
  "str_exc (TypeError m) = m"
| "str_exc (ZeroDivisionError m) = m"
| "str_exc (LibraryError m) = m"

fun py_truthy :: "pyval \<Rightarrow> bool" where
  "py_truthy PNone = False"
| "py_truthy (PInt i) = (i \<noteq> 0)"
| "py_truthy (PFloat x) = (x \<noteq> 0)"
| "py_truthy (PStr s) = (s \<noteq> [])"
| "py_truthy (PBytes b) = (b \<noteq> [])"

fun py_type_name :: "pyval \<Rightarrow> pystr" where
  "py_type_name PNone = u ''NoneType''"
| "py_type_name (PInt i) = u ''int''"
| "py_type_name (PFloat x) = u ''float''"
| "py_type_name (PStr s) = u ''str''"
| "py_type_name (PBytes b) = u ''bytes''"

fun py_len :: "pyval \<Rightarrow> py_exception + nat" where
  "py_len (PStr s) = Inr (length s)"
| "py_len (PBytes b) = Inr (length b)"
| "py_len v = Inl (TypeError (u ''object of type '' @ [39] @ py_type_name v @ [39]
                                @ u '' has no len()''))"

text \<open>\<open>v < n\<close> for an integer literal \<open>n\<close>.\<close>

fun py_lt_int :: "pyval \<Rightarrow> int \<Rightarrow> py_exception + bool" where
  "py_lt_int (PInt i) n = Inr (i < n)"
| "py_lt_int (PFloat x) n = Inr (x < of_int n)"
| "py_lt_int v n = Inl (TypeError ([39] @ u ''<'' @ [39]
                          @ u '' not supported between instances of '' @ [39]
                          @ py_type_name v @ [39] @ u '' and '' @ [39] @ u ''int'' @ [39]))"

definition dict_get :: "pyval option \<Rightarrow> pyval \<Rightarrow> pyval" where
  "dict_get field dflt = (case field of None \<Rightarrow> dflt | Some v \<Rightarrow> v)"

definition log_small_image :: "processor \<Rightarrow> nat \<Rightarrow> image_candidate \<Rightarrow> processor" where
  "log_small_image self i img_data =
     log_extraction_error self (u ''image_extraction'') (u ''low'')
       (u ''Image '' @ str_int (int i + 1) @ u '' de tr'' @ [232] @ u ''s petite taille'')
       (Some [(u ''width'', dict_get (width img_data) PNone),
              (u ''height'', dict_get (height img_data) PNone)])
       None None
       (Some (u ''L'' @ [39] @ u ''image pourrait '' @ [234] @ u ''tre de mauvaise qualit''
                @ [233] @ u '' ou corrompue''))"

definition log_failed_image :: "processor \<Rightarrow> nat \<Rightarrow> processor" where
  "log_failed_image self i =
     log_extraction_error self (u ''image_extraction'') (u ''medium'')
       ([201] @ u ''chec d'' @ [39] @ u ''extraction de l'' @ [39] @ u ''image ''
          @ str_int (int i + 1))
       (Some [(u ''image_index'', PInt (int i))])
       None None None"

definition log_image_exception :: "processor \<Rightarrow> nat \<Rightarrow> py_exception \<Rightarrow> processor" where
  "log_image_exception self i e =
     log_extraction_error self (u ''image_extraction'') (u ''high'')
       (u ''Erreur lors du traitement de l'' @ [39] @ u ''image '' @ str_int (int i + 1)
          @ u '': '' @ str_exc e)
       (Some [(u ''image_index'', PInt (int i)), (u ''error'', PStr (str_exc e))])
       None None None"

text \<open>
  The body of the \<open>try\<close> of lines 137 to 152 for candidate \<open>i\<close>. The state is the pair
  of \<open>successful_extractions\<close> and the processor. An exception leaves the effects that
  precede it in place, so the body returns the state reached together with the exception
  raised, if any.
\<close>

definition inspect_image ::
  "nat \<Rightarrow> image_candidate \<Rightarrow> nat \<times> processor \<Rightarrow> py_exception option \<times> (nat \<times> processor)" where
  "inspect_image i img_data st =
     (let successful_extractions = fst st; self = snd st in
      if py_truthy (dict_get (data img_data) PNone) then
        (case py_len (dict_get (data img_data) PNone) of
           Inl e \<Rightarrow> (Some e, (successful_extractions, self))
         | Inr n \<Rightarrow>
             if n > 0 then
               (let successful_extractions = successful_extractions + 1 in
                case py_lt_int (dict_get (width img_data) (PInt 0)) 50 of
                  Inl e \<Rightarrow> (Some e, (successful_extractions, self))
                | Inr True \<Rightarrow> (None, (successful_extractions, log_small_image self i img_data))
                | Inr False \<Rightarrow>
                    (case py_lt_int (dict_get (height img_data) (PInt 0)) 50 of
                       Inl e \<Rightarrow> (Some e, (successful_extractions, self))
                     | Inr True \<Rightarrow>
                         (None, (successful_extractions, log_small_image self i img_data))
                     | Inr False \<Rightarrow> (None, (successful_extractions, self))))
             else (None, (successful_extractions, log_failed_image self i)))
      else (None, (successful_extractions, log_failed_image self i)))"

definition process_image :: "nat \<Rightarrow> image_candidate \<Rightarrow> nat \<times> processor \<Rightarrow> nat \<times> processor" where
  "process_image i img_data st =
     (case inspect_image i img_data st of
        (None, st') \<Rightarrow> st'
      | (Some e, (successful_extractions, self)) \<Rightarrow>
          (successful_extractions, log_image_exception self i e))"

fun image_loop :: "nat \<Rightarrow> image_candidate list \<Rightarrow> nat \<times> processor \<Rightarrow> nat \<times> processor" where
  "image_loop i [] st = st"
| "image_loop i (img_data # rest) st = image_loop (Suc i) rest (process_image i img_data st)"

definition calculate_image_quality ::
  "processor \<Rightarrow> image_candidate list \<Rightarrow> int option \<Rightarrow> rat \<times> processor" where
  "calculate_image_quality self images_data total_images_detected =
     (if images_data = [] then
        (case total_images_detected of
           None \<Rightarrow> (100, self)
         | Some n \<Rightarrow>
             if n \<noteq> 0 \<and> n > 0 then
               (0, log_extraction_error self (u ''image_extraction'') (u ''high'')
                     (u ''Aucune image extraite alors que '' @ str_int n @ u '' ont '' @ [233]
                        @ u ''t'' @ [233] @ u '' d'' @ [233] @ u ''tect'' @ [233] @ u ''es'')
                     (Some [(u ''detected'', PInt n), (u ''extracted'', PInt 0)])
                     None None None)
             else (100, self))
      else
        (let (successful_extractions, self) = image_loop 0 images_data (0, self) in
         if length images_data > 0 then
           ((of_nat successful_extractions / of_nat (length images_data)) * 100, self)
         else (100, self)))"

section \<open>Quality scorer: tables\<close>

text \<open>
  The keys of \<open>format_info\<close> that the scorers read; \<open>None\<close> is an absent key.
\<close>

record format_info =
  has_tables :: "bool option"
  has_images :: "bool option"

definition calculate_table_quality :: "processor \<Rightarrow> pystr \<Rightarrow> format_info \<Rightarrow> rat \<times> processor" where
  "calculate_table_quality self content fi =
     (let has = (case has_tables fi of None \<Rightarrow> False | Some b \<Rightarrow> b) in
      if \<not> has then (100, self)
      else
        let table_indicators =
              py_count (u ''<table>'') content + py_count (u ''|'') content + py_count [9] content
        in
        if table_indicators = 0 then
          (20, log_extraction_error self (u ''table_parsing'') (u ''high'')
                 (u ''Tableaux d'' @ [233] @ u ''tect'' @ [233]
                    @ u ''s mais non extraits correctement'')
                 None None None
                 (Some (u ''Le document contient des tableaux complexes n'' @ [233]
                          @ u ''cessitant un traitement sp'' @ [233] @ u ''cialis'' @ [233])))
        else if py_contains (u ''<table>'') content then
          (let table_count = py_count (u ''<table>'') content;
               complete_tables = py_count (u ''</table>'') content
           in
           if table_count \<noteq> complete_tables then
             (60, log_extraction_error self (u ''table_parsing'') (u ''medium'')
                    (u ''Tableaux HTML incomplets d'' @ [233] @ u ''tect'' @ [233] @ u ''s'')
                    (Some [(u ''incomplete_tables'',
                            PInt (int table_count - int complete_tables))])
                    None None None)
           else (85, self))
        else (85, self))"

section \<open>Metrics aggregator\<close>

text \<open>
  The keys of the extraction result that \<open>update_extraction_metrics\<close> reads; \<open>None\<close> is
  an absent key, for which \<open>result.get\<close> supplies the default.
\<close>

record extraction_result =
  res_content :: "pystr option"
  res_formatted_content :: "pystr option"
  res_images :: "image_candidate list option"
  res_format_info :: "format_info option"

definition estimate_page_count :: "pystr \<Rightarrow> pystr \<Rightarrow> int" where
  "estimate_page_count content formatted_content =
     (if py_contains (u ''pdf-page'') formatted_content then
        int (py_count (u ''pdf-page'') formatted_content)
      else if content \<noteq> [] then
        (let word_count = int (length (py_split_ws content)) in max 1 (word_count div 500))
      else 1)"

definition update_extraction_metrics :: "processor \<Rightarrow> extraction_result \<Rightarrow> processor" where
  "update_extraction_metrics self result =
     (let content = (case res_content result of None \<Rightarrow> [] | Some c \<Rightarrow> c);
          formatted_content = (case res_formatted_content result of None \<Rightarrow> [] | Some c \<Rightarrow> c);
          images = (case res_images result of None \<Rightarrow> [] | Some l \<Rightarrow> l);
          fi = (case res_format_info result of
                  None \<Rightarrow> \<lparr>has_tables = None, has_images = None\<rparr>
                | Some f \<Rightarrow> f);
          self = self\<lparr>current_page_count := Some (estimate_page_count content formatted_content)\<rparr>;
          self = self\<lparr>total_elements_detected := total_elements_detected self + 1\<rparr>;
          self = self\<lparr>total_elements_extracted :=
                        total_elements_extracted self + (if content \<noteq> [] then 1 else 0)\<rparr>;
          total_images_detected = (if images \<noteq> [] then int (length images) else 0);
          total_images_detected =
            (if has_images fi = Some True then max total_images_detected 1
             else total_images_detected);
          self = self\<lparr>total_elements_detected :=
                        total_elements_detected self + total_images_detected\<rparr>;
          self = self\<lparr>total_elements_extracted :=
                        total_elements_extracted self
                        + int (length (filter (\<lambda>img. py_truthy (dict_get (data img) PNone))
                                         images))\<rparr>;
          self =
            (if has_tables fi = Some True then
               (let self = self\<lparr>total_elements_detected := total_elements_detected self + 1\<rparr> in
                if \<exists>indicator \<in> set [u ''<table>'', u ''|'', [9]].
                     py_contains indicator formatted_content
                then self\<lparr>total_elements_extracted := total_elements_extracted self + 1\<rparr>
                else self)
             else self);
          (tq, self) = calculate_text_quality self content None;
          self = self\<lparr>text_quality := tq\<rparr>;
          (iq, self) = calculate_image_quality self images (Some total_images_detected);
          self = self\<lparr>image_quality := iq\<rparr>;
          (bq, self) = calculate_table_quality self formatted_content fi
      in self\<lparr>table_quality := bq\<rparr>)"

section \<open>Precision aggregation\<close>

text \<open>
  Python's \<open>round(x, 2)\<close>: to the nearest multiple of 1/100, a tie going to the even one.
\<close>

definition round_half_even :: "rat \<Rightarrow> int" where
  "round_half_even x =
     (let f = \<lfloor>x\<rfloor>; d = x - of_int f
      in if d < 1 / 2 then f else if 1 / 2 < d then f + 1 else if even f then f else f + 1)"

definition py_round2 :: "rat \<Rightarrow> rat" where
  "py_round2 x = of_int (round_half_even (x * 100)) / 100"

text \<open>
  The fields of the document that \<open>save_extraction_metrics\<close> assigns. The assignments
  precede \<open>document.save()\<close>; the database write itself is an external collaborator.
\<close>

record document =
  extraction_precision :: rat
  doc_total_elements_detected :: int
  doc_total_elements_extracted :: int
  text_extraction_quality :: rat
  image_extraction_quality :: rat
  table_extraction_quality :: rat

definition precision :: "processor \<Rightarrow> rat" where
  "precision self =
     (if total_elements_detected self > 0
      then (of_int (total_elements_extracted self) / of_int (total_elements_detected self)) * 100
      else 100)"

definition save_extraction_metrics :: "processor \<Rightarrow> document \<Rightarrow> document" where
  "save_extraction_metrics self doc =
     doc\<lparr> extraction_precision := py_round2 (precision self),
          doc_total_elements_detected := total_elements_detected self,
          doc_total_elements_extracted := total_elements_extracted self,
          text_extraction_quality := py_round2 (text_quality self),
          image_extraction_quality := py_round2 (image_quality self),
          table_extraction_quality := py_round2 (table_quality self) \<rparr>"

section \<open>ImageProcessor\<close>

text \<open>
  The image library (Pillow) is not part of the repository. Its operations are taken
  as parameters over an abstract type of image objects; each may raise, which is the
  result \<open>Inl\<close>. \<open>pil_resize\<close> and \<open>pil_thumbnail\<close> stand for the calls with the
  LANCZOS filter, \<open>pil_sharpness img f\<close> for \<open>ImageEnhance.Sharpness(img).enhance(f)\<close>
  (with the import that precedes it), \<open>pil_contrast\<close> likewise,
  \<open>pil_new_rgb size\<close> for a white RGB image, \<open>pil_paste_alpha bg img\<close> for
  \<open>bg.paste(img, mask=img.split()[-1])\<close>, and \<open>pil_save img fmt opts\<close> for the bytes
  that \<open>img.save(buffer, format=fmt, ...)\<close> writes. In-place mutation of an image is
  modelled by returning the modified image.
\<close>

type_synonym bytes = "nat list"

datatype image_format = PNG | JPEG

record save_options =
  opt_quality :: "int option"
  opt_optimize :: bool

record 'img pil =
  pil_open :: "bytes \<Rightarrow> py_exception + 'img"
  pil_mode :: "'img \<Rightarrow> pystr"
  pil_size :: "'img \<Rightarrow> int \<times> int"
  pil_copy :: "'img \<Rightarrow> py_exception + 'img"
  pil_resize :: "'img \<Rightarrow> int \<times> int \<Rightarrow> py_exception + 'img"
  pil_thumbnail :: "'img \<Rightarrow> int \<times> int \<Rightarrow> py_exception + 'img"
  pil_sharpness :: "'img \<Rightarrow> rat \<Rightarrow> py_exception + 'img"
  pil_contrast :: "'img \<Rightarrow> rat \<Rightarrow> py_exception + 'img"
  pil_new_rgb :: "int \<times> int \<Rightarrow> py_exception + 'img"
  pil_paste_alpha :: "'img \<Rightarrow> 'img \<Rightarrow> py_exception + 'img"
  pil_convert :: "'img \<Rightarrow> pystr \<Rightarrow> py_exception + 'img"
  pil_save :: "'img \<Rightarrow> image_format \<Rightarrow> save_options \<Rightarrow> py_exception + bytes"

record image_processor =
  max_width :: int
  max_height :: int
  quality :: int

definition init_image_processor :: image_processor where
  "init_image_processor = \<lparr> max_width = 2400, max_height = 2400, quality = 92 \<rparr>"

text \<open>The file object that \<open>save_image\<close> returns: its bytes and its name.\<close>

record content_file =
  cf_content :: bytes
  cf_name :: pystr

fun replace_from :: "pystr \<Rightarrow> pystr \<Rightarrow> pystr \<Rightarrow> pystr" where
  "replace_from old new [] = []"
| "replace_from old new (c # cs) =
     (if startswith (c # cs) old then new @ replace_from old new (drop (length old - 1) cs)
      else c # replace_from old new cs)"

definition py_replace :: "pystr \<Rightarrow> pystr \<Rightarrow> pystr \<Rightarrow> pystr" where
  "py_replace old new s =
     (if old = [] then new @ concat (map (\<lambda>c. c # new) s) else replace_from old new s)"

text \<open>\<open>int(x)\<close> truncates towards zero.\<close>

definition py_int :: "rat \<Rightarrow> int" where
  "py_int x = (if 0 \<le> x then \<lfloor>x\<rfloor> else \<lceil>x\<rceil>)"

definition optimize_image :: "image_processor \<Rightarrow> 'img pil \<Rightarrow> 'img \<Rightarrow> py_exception + 'img" where
  "optimize_image self P img =
     (case pil_copy P img of
        Inl e \<Rightarrow> Inl e
      | Inr optimized \<Rightarrow>
          let min_size = 300 :: int in
          case (if fst (pil_size P optimized) < min_size \<and> snd (pil_size P optimized) < min_size
                then
                  (if min (fst (pil_size P optimized)) (snd (pil_size P optimized)) = 0
                   then Inl (ZeroDivisionError (u ''division by zero''))
                   else
                     let scale_factor =
                           of_int min_size
                             / of_int (min (fst (pil_size P optimized))
                                           (snd (pil_size P optimized)));
                         new_width = py_int (of_int (fst (pil_size P optimized)) * scale_factor);
                         new_height = py_int (of_int (snd (pil_size P optimized)) * scale_factor)
                     in pil_resize P optimized (new_width, new_height))
                else Inr optimized) of
            Inl e \<Rightarrow> Inl e
          | Inr optimized \<Rightarrow>
              (case (if fst (pil_size P optimized) > max_width self
                        \<or> snd (pil_size P optimized) > max_height self
                     then pil_thumbnail P optimized (max_width self, max_height self)
                     else Inr optimized) of
                 Inl e \<Rightarrow> Inl e
               | Inr optimized \<Rightarrow>
                   (case pil_sharpness P optimized (12 / 10) of
                      Inl e \<Rightarrow> Inr optimized
                    | Inr sharpened \<Rightarrow> Inr sharpened)))"

definition output_format :: "pystr \<Rightarrow> image_format" where
  "output_format mode = (if mode = u ''RGBA'' then PNG else JPEG)"

text \<open>The body of the \<open>try\<close> of \<open>save_image\<close>, lines 19 to 47.\<close>

definition save_image_try ::
  "image_processor \<Rightarrow> 'img pil \<Rightarrow> bytes \<Rightarrow> pystr \<Rightarrow> py_exception + content_file" where
  "save_image_try self P image_data filename =
     (case pil_open P image_data of
        Inl e \<Rightarrow> Inl e
      | Inr img \<Rightarrow>
          (case optimize_image self P img of
             Inl e \<Rightarrow> Inl e
           | Inr optimized_image \<Rightarrow>
               if output_format (pil_mode P optimized_image) = JPEG then
                 (case (if pil_mode P optimized_image = u ''RGBA'' then
                          (case pil_new_rgb P (pil_size P optimized_image) of
                             Inl e \<Rightarrow> Inl e
                           | Inr background \<Rightarrow> pil_paste_alpha P background optimized_image)
                        else Inr optimized_image) of
                    Inl e \<Rightarrow> Inl e
                  | Inr optimized_image \<Rightarrow>
                      (case pil_save P optimized_image JPEG
                              \<lparr> opt_quality = Some (quality self), opt_optimize = True \<rparr> of
                         Inl e \<Rightarrow> Inl e
                       | Inr output \<Rightarrow>
                           Inr \<lparr> cf_content = output,
                                 cf_name = py_replace (u ''.png'') (u ''.jpg'') filename \<rparr>))
               else
                 (case pil_save P optimized_image PNG
                         \<lparr> opt_quality = None, opt_optimize = True \<rparr> of
                    Inl e \<Rightarrow> Inl e
                  | Inr output \<Rightarrow> Inr \<lparr> cf_content = output, cf_name = filename \<rparr>)))"

definition save_image :: "image_processor \<Rightarrow> 'img pil \<Rightarrow> bytes \<Rightarrow> pystr \<Rightarrow> content_file" where
  "save_image self P image_data filename =
     (case save_image_try self P image_data filename of
        Inr django_file \<Rightarrow> django_file
      | Inl e \<Rightarrow> \<lparr> cf_content = image_data, cf_name = filename \<rparr>)"

text \<open>The body of the \<open>try\<close> of \<open>convert_to_web_format\<close>, lines 223 to 252.\<close>

definition convert_to_web_format_try :: "'img pil \<Rightarrow> bytes \<Rightarrow> py_exception + bytes" where
  "convert_to_web_format_try P image_data =
     (case pil_open P image_data of
        Inl e \<Rightarrow> Inl e
      | Inr img \<Rightarrow>
          (case (if pil_mode P img \<notin> set [u ''RGB'', u ''RGBA'']
                 then pil_convert P img (u ''RGB'') else Inr img) of
             Inl e \<Rightarrow> Inl e
           | Inr img \<Rightarrow>
               (case (if fst (pil_size P img) > 1600 \<or> snd (pil_size P img) > 1600
                      then pil_thumbnail P img (1600, 1600) else Inr img) of
                  Inl e \<Rightarrow> Inl e
                | Inr img \<Rightarrow>
                    (let img =
                           (case pil_contrast P img (11 / 10) of
                              Inl e \<Rightarrow> img
                            | Inr contrasted \<Rightarrow>
                                (case pil_sharpness P contrasted (13 / 10) of
                                   Inl e \<Rightarrow> contrasted
                                 | Inr sharpened \<Rightarrow> sharpened))
                     in pil_save P img JPEG
                          \<lparr> opt_quality = Some 90, opt_optimize = True \<rparr>))))"

definition convert_to_web_format :: "'img pil \<Rightarrow> bytes \<Rightarrow> bytes" where
  "convert_to_web_format P image_data =
     (case convert_to_web_format_try P image_data of
        Inr output \<Rightarrow> output
      | Inl e \<Rightarrow> image_data)"

section \<open>Vocabulary of the properties\<close>

text \<open>
  The corrupted-character ratio of a text, as line 89 computes it; the diagnostics that
  a call has appended to the accumulator; and the diagnostics of one category and
  severity among them.
\<close>

definition corrupted_ratio :: "pystr \<Rightarrow> rat" where
  "corrupted_ratio extracted_text =
     of_nat (corrupted_chars extracted_text) / of_nat (length extracted_text)"

definition emitted :: "processor \<Rightarrow> processor \<Rightarrow> extraction_error list" where
  "emitted self self' = drop (length (errors self)) (errors self')"

definition diagnostics_of :: "pystr \<Rightarrow> pystr \<Rightarrow> extraction_error list \<Rightarrow> extraction_error list" where
  "diagnostics_of etype sev es = filter (\<lambda>e. error_type e = etype \<and> severity e = sev) es"

text \<open>
  A candidate carries data when its \<open>data\<close> value is a non-empty byte or character
  sequence, and carries none when that value is falsy or the key is absent. A dimension
  is a number when it is an \<open>int\<close> or a \<open>float\<close>.
\<close>

definition carries_data :: "image_candidate \<Rightarrow> bool" where
  "carries_data img_data =
     (case dict_get (data img_data) PNone of
        PBytes b \<Rightarrow> b \<noteq> [] | PStr s \<Rightarrow> s \<noteq> [] | _ \<Rightarrow> False)"

definition carries_none :: "image_candidate \<Rightarrow> bool" where
  "carries_none img_data = (\<not> py_truthy (dict_get (data img_data) PNone))"

definition is_number :: "pyval \<Rightarrow> bool" where
  "is_number v = (case v of PInt i \<Rightarrow> True | PFloat x \<Rightarrow> True | _ \<Rightarrow> False)"

definition small_image_message :: "nat \<Rightarrow> pystr" where
  "small_image_message i =
     u ''Image '' @ str_int (int i + 1) @ u '' de tr'' @ [232] @ u ''s petite taille''"

text \<open>An extraction result used to exercise the aggregator.\<close>

definition example_result :: extraction_result where
  "example_result =
     \<lparr> res_content = Some (u ''Bonjour''),
       res_formatted_content = Some (u ''<p>Bonjour</p>''),
       res_images = Some [\<lparr>data = Some (PBytes [1]), width = Some (PInt 10), height = None\<rparr>,
                          \<lparr>data = None, width = None, height = None\<rparr>],
       res_format_info = Some \<lparr>has_tables = Some True, has_images = Some True\<rparr> \<rparr>"

text \<open>
  Pillow's image modes that have an alpha band.
\<close>

definition has_alpha_channel :: "pystr \<Rightarrow> bool" where
  "has_alpha_channel mode = (mode \<in> set [u ''RGBA'', u ''LA'', u ''PA'', u ''RGBa'', u ''La''])"

section \<open>A stand-in for the image library\<close>

text \<open>
  A small instance of the library parameters, on which the image processor can be run.
  An image object is its mode and its size. Three byte strings decode: an RGBA PNG, a
  grey-scale PNG with alpha (mode \<open>LA\<close>) and an RGB JPEG, each 400 by 300 pixels, so
  that neither the upscaling nor the downscaling branch is entered; every other byte
  string fails to decode. Copying and enhancing keep mode and size. As in Pillow, the
  JPEG writer accepts the modes 1, L, RGB, RGBX, CMYK and YCbCr and raises for any
  other.
\<close>

record sample_image =
  s_mode :: pystr
  s_size :: "int \<times> int"

definition rgba_png :: bytes where "rgba_png = [137, 80, 78, 71, 6]"

definition gray_alpha_png :: bytes where "gray_alpha_png = [137, 80, 78, 71, 4]"

definition rgb_jpeg :: bytes where "rgb_jpeg = [255, 216, 255, 224]"

definition sample_pil :: "sample_image pil" where
  "sample_pil =
     \<lparr> pil_open = (\<lambda>b. if b = rgba_png then Inr \<lparr>s_mode = u ''RGBA'', s_size = (400, 300)\<rparr>
                        else if b = gray_alpha_png then Inr \<lparr>s_mode = u ''LA'', s_size = (400, 300)\<rparr>
                        else if b = rgb_jpeg then Inr \<lparr>s_mode = u ''RGB'', s_size = (400, 300)\<rparr>
                        else Inl (LibraryError (u ''cannot identify image file''))),
       pil_mode = s_mode,
       pil_size = s_size,
       pil_copy = Inr,
       pil_resize = (\<lambda>img sz. Inr (img\<lparr>s_size := sz\<rparr>)),
       pil_thumbnail = (\<lambda>img sz. Inr img),
       pil_sharpness = (\<lambda>img f. Inr img),
       pil_contrast = (\<lambda>img f. Inr img),
       pil_new_rgb = (\<lambda>sz. Inr \<lparr>s_mode = u ''RGB'', s_size = sz\<rparr>),
       pil_paste_alpha = (\<lambda>bg img. Inr bg),
       pil_convert = (\<lambda>img m. Inr (img\<lparr>s_mode := m\<rparr>)),
       pil_save = (\<lambda>img fmt opts.
                     if fmt = JPEG then
                       (if s_mode img \<in> set [u ''1'', u ''L'', u ''RGB'', u ''RGBX'', u ''CMYK'',
                                               u ''YCbCr'']
                        then Inr [255, 216, 255, 219]
                        else Inl (LibraryError (u ''cannot write mode '' @ s_mode img
                                                  @ u '' as JPEG'')))
                     else Inr [137, 80, 78, 71, 0]) \<rparr>"

section \<open>Properties\<close>

lemma u_Nil [simp]: "u [] = []"
  by (simp add: u_def)

lemma u_Cons [simp]: "u (c # cs) = of_char c # u cs"
  by (simp add: u_def)

lemma round_half_even_of_int: "round_half_even (of_int n) = n"
  by (simp add: round_half_even_def)

lemma py_round2_of_int: "py_round2 (of_int k) = of_int k"
proof -
  have "of_int k * (100::rat) = of_int (k * 100)" by simp
  then have "round_half_even (of_int k * 100) = k * 100"
    by (simp only: round_half_even_of_int)
  then show ?thesis by (simp add: py_round2_def)
qed

text \<open>
  C1. The precision computed by \<open>save_extraction_metrics\<close> is
  \<open>extracted / detected * 100\<close> when \<open>total_elements_detected > 0\<close> and 100 otherwise;
  it is stored rounded to two decimals. With 10 detected and 7 extracted both the
  computed and the stored precision are exactly 70, and with 0 detected they are 100.
\<close>

theorem precision_finalize:
  "precision self =
     (if total_elements_detected self > 0
      then of_int (total_elements_extracted self) / of_int (total_elements_detected self) * 100
      else 100)
   \<and> extraction_precision (save_extraction_metrics self doc) = py_round2 (precision self)
   \<and> (total_elements_detected self = 10 \<and> total_elements_extracted self = 7 \<longrightarrow>
        precision self = 70 \<and> extraction_precision (save_extraction_metrics self doc) = 70)
   \<and> (total_elements_detected self = 0 \<longrightarrow>
        precision self = 100 \<and> extraction_precision (save_extraction_metrics self doc) = 100)"
proof -
  have st: "extraction_precision (save_extraction_metrics self doc) = py_round2 (precision self)"
    by (simp add: save_extraction_metrics_def)
  have a: "precision self = 70 \<and> extraction_precision (save_extraction_metrics self doc) = 70"
    if "total_elements_detected self = 10" "total_elements_extracted self = 7"
  proof -
    from that have "precision self = of_int 70" by (simp add: precision_def)
    then show ?thesis using st py_round2_of_int [of 70] by simp
  qed
  have b: "precision self = 100 \<and> extraction_precision (save_extraction_metrics self doc) = 100"
    if "total_elements_detected self = 0"
  proof -
    from that have "precision self = of_int 100" by (simp add: precision_def)
    then show ?thesis using st py_round2_of_int [of 100] by simp
  qed
  show ?thesis using st a b by (simp add: precision_def)
qed

theorem precision_finalize_witness:
  "precision (init_processor\<lparr>total_elements_detected := 10, total_elements_extracted := 7\<rparr>) = 70
   \<and> extraction_precision
        (save_extraction_metrics
           (init_processor\<lparr>total_elements_detected := 10, total_elements_extracted := 7\<rparr>)
           \<lparr>extraction_precision = 0, doc_total_elements_detected = 0,
            doc_total_elements_extracted = 0, text_extraction_quality = 0,
            image_extraction_quality = 0, table_extraction_quality = 0\<rparr>) = 70
   \<and> precision init_processor = 100"
proof -
  let ?s = "init_processor\<lparr>total_elements_detected := 10, total_elements_extracted := 7\<rparr>"
  have h: "total_elements_detected ?s = 10 \<and> total_elements_extracted ?s = 7" by simp
  have z: "total_elements_detected init_processor = 0" by (simp add: init_processor_def)
  from h precision_finalize [of ?s] z precision_finalize [of init_processor]
  show ?thesis by blast
qed

subsection \<open>Diagnostic logger\<close>

lemma log_errors [simp]:
  "errors (log_extraction_error self etype sev msg dets page elem fix) =
     errors self @
     [\<lparr> error_type = etype, severity = sev, message = msg, details = dets,
        page_number = (case page of
                         None \<Rightarrow> (case current_page_number self of None \<Rightarrow> 1 | Some p \<Rightarrow> p)
                       | Some p \<Rightarrow> p),
        element_type = elem,
        suggested_fix = (case fix of
                           None \<Rightarrow> py_join (u ''; '')
                                     (take 2 (apply_automatic_corrections etype dets))
                         | Some f \<Rightarrow> f) \<rparr>]"
  by (simp add: log_extraction_error_def Let_def)

text \<open>
  C6. Logging an \<open>encoding\<close> error without an explicit fix appends a record whose
  suggested fix is the first entry of the encoding remediation list, the string
  \<open>"; "\<close>, and the second entry.
\<close>

theorem log_encoding_auto_fix:
  "suggested_fix
     (last (errors (log_extraction_error self (u ''encoding'') sev msg dets page elem None)))
     = apply_automatic_corrections (u ''encoding'') dets ! 0 @ u ''; ''
         @ apply_automatic_corrections (u ''encoding'') dets ! 1
   \<and> apply_automatic_corrections (u ''encoding'') dets =
       [u ''R'' @ [233] @ u ''-encoder le document avec UTF-8'',
        u ''Utiliser un OCR avec d'' @ [233] @ u ''tection automatique d'' @ [39]
          @ u ''encodage'',
        u ''Convertir le document en PDF avant extraction'']"
  by (simp add: apply_automatic_corrections_def)

subsection \<open>Text quality\<close>

lemma corruption_penalty_bounds: "0 \<le> corruption_penalty t \<and> corruption_penalty t \<le> 50"
  by (simp add: corruption_penalty_def)

lemma corruption_penalty_ratio: "corruption_penalty t = min 50 (corrupted_ratio t * 100)"
  by (simp add: corruption_penalty_def corrupted_ratio_def)

lemma corruption_penalty_zero: "corrupted_chars t = 0 \<Longrightarrow> corruption_penalty t = 0"
  by (simp add: corruption_penalty_def)

lemma text_quality_formula:
  "t \<noteq> [] \<Longrightarrow>
   fst (calculate_text_quality self t e) =
     max 0 (100 - corruption_penalty t
              - (if empty_lines_ratio t > 1 / 2 then 20 else 0)
              - (if length_mismatch t e then 15 else 0))"
  using corruption_penalty_zero [of t]
  by (simp add: calculate_text_quality_def Let_def split: prod.splits)

lemma length_mismatch_length:
  "length t1 = length t2 \<Longrightarrow> length_mismatch t1 e = length_mismatch t2 e"
  unfolding length_mismatch_def by presburger

text \<open>
  C2. Whatever the text and the expected length, the text quality lies between 0 and
  100; for the empty text it is exactly 0 and the accumulator, hence its list of
  diagnostics, is returned unchanged.
\<close>

theorem text_quality_range:
  "0 \<le> fst (calculate_text_quality self t e) \<and> fst (calculate_text_quality self t e) \<le> 100
   \<and> calculate_text_quality self [] e = (0, self)"
  using corruption_penalty_bounds [of t]
  by (simp add: calculate_text_quality_def Let_def split: prod.splits if_splits)

text \<open>
  C3, as amended. For two non-empty texts of equal length, scored against the same
  expected length, where the second has a corrupted-character ratio at least that of
  the first and incurs the blank-line penalty whenever the first does, the quality of
  the second is at most the quality of the first.
\<close>

theorem text_quality_monotone:
  assumes "t1 \<noteq> []" and "t2 \<noteq> []" and "length t1 = length t2"
    and "corrupted_ratio t1 \<le> corrupted_ratio t2"
    and "empty_lines_ratio t1 > 1 / 2 \<longrightarrow> empty_lines_ratio t2 > 1 / 2"
  shows "fst (calculate_text_quality self2 t2 e) \<le> fst (calculate_text_quality self1 t1 e)"
proof -
  have p: "corruption_penalty t1 \<le> corruption_penalty t2"
    using assms(4) by (simp add: corruption_penalty_ratio min.coboundedI2)
  have m: "length_mismatch t1 e = length_mismatch t2 e"
    using assms(3) by (rule length_mismatch_length)
  have b: "(if empty_lines_ratio t1 > 1 / 2 then 20 else 0 :: rat)
             \<le> (if empty_lines_ratio t2 > 1 / 2 then 20 else 0)"
    using assms(5) by simp
  show ?thesis
    using p m b by (simp add: text_quality_formula assms(1,2) max.coboundedI2)
qed

text \<open>
  The claim as first stated, without the condition on blank lines, fails: the texts
  \<open>"a\n\n\n"\<close> and \<open>"aaaa"\<close> have the same length and the same corrupted ratio 0, yet
  the first scores 80 (three of its four lines are blank) and the second 100.
\<close>

theorem text_quality_monotone_counterexample:
  "u ''a'' @ [10, 10, 10] \<noteq> [] \<and> u ''aaaa'' \<noteq> []
   \<and> length (u ''a'' @ [10, 10, 10]) = length (u ''aaaa'')
   \<and> corrupted_ratio (u ''a'' @ [10, 10, 10]) \<le> corrupted_ratio (u ''aaaa'')
   \<and> fst (calculate_text_quality init_processor (u ''a'' @ [10, 10, 10]) None) = 80
   \<and> fst (calculate_text_quality init_processor (u ''aaaa'') None) = 100
   \<and> \<not> fst (calculate_text_quality init_processor (u ''aaaa'') None)
         \<le> fst (calculate_text_quality init_processor (u ''a'' @ [10, 10, 10]) None)"
  by (simp add: calculate_text_quality_def corrupted_ratio_def corrupted_chars_def
        is_corrupted_def corruption_markers_def empty_lines_ratio_def py_strip_def
        py_isspace_def length_mismatch_def Let_def)

theorem text_quality_monotone_witness:
  "u ''ab?d'' \<noteq> [] \<and> u ''a??d'' \<noteq> [] \<and> length (u ''ab?d'') = length (u ''a??d'')
   \<and> corrupted_ratio (u ''ab?d'') \<le> corrupted_ratio (u ''a??d'')
   \<and> \<not> empty_lines_ratio (u ''ab?d'') > 1 / 2
   \<and> fst (calculate_text_quality init_processor (u ''a??d'') None)
       \<le> fst (calculate_text_quality init_processor (u ''ab?d'') None)"
proof -
  have h: "u ''ab?d'' \<noteq> [] \<and> u ''a??d'' \<noteq> [] \<and> length (u ''ab?d'') = length (u ''a??d'')
   \<and> corrupted_ratio (u ''ab?d'') \<le> corrupted_ratio (u ''a??d'')
   \<and> \<not> empty_lines_ratio (u ''ab?d'') > 1 / 2"
    by (simp add: corrupted_ratio_def corrupted_chars_def
        is_corrupted_def corruption_markers_def empty_lines_ratio_def py_strip_def
        py_isspace_def Let_def)
  with text_quality_monotone [of "u ''ab?d''" "u ''a??d''" init_processor None init_processor]
  show ?thesis by blast
qed

theorem text_quality_range_witness:
  "fst (calculate_text_quality init_processor (u ''a???'') (Some 2)) = 35
   \<and> 0 \<le> fst (calculate_text_quality init_processor (u ''a???'') (Some 2))
   \<and> fst (calculate_text_quality init_processor (u ''a???'') (Some 2)) \<le> 100
   \<and> calculate_text_quality init_processor [] (Some 2) = (0, init_processor)"
proof -
  have "fst (calculate_text_quality init_processor (u ''a???'') (Some 2)) = 35"
    by (simp add: calculate_text_quality_def corruption_penalty_def corrupted_chars_def
        is_corrupted_def corruption_markers_def empty_lines_ratio_def py_strip_def
        py_isspace_def length_mismatch_def Let_def)
  with text_quality_range [of init_processor "u ''a???''" "Some 2"] show ?thesis by simp
qed

theorem log_encoding_auto_fix_witness:
  "suggested_fix
     (last (errors (log_extraction_error init_processor (u ''encoding'') (u ''medium'')
                      (u ''x'') None None None None)))
     = u ''R'' @ [233] @ u ''-encoder le document avec UTF-8; Utiliser un OCR avec d'' @ [233]
         @ u ''tection automatique d'' @ [39] @ u ''encodage''"
  using log_encoding_auto_fix [of init_processor "u ''medium''" "u ''x''" None None None]
  by simp

subsection \<open>Image quality\<close>

lemma process_image_none:
  "carries_none c \<Longrightarrow> process_image i c (n, s) = (n, log_failed_image s i)"
  by (simp add: carries_none_def process_image_def inspect_image_def)

lemma carries_data_len:
  "carries_data c \<Longrightarrow>
     py_truthy (dict_get (data c) PNone) \<and> (\<exists>k. py_len (dict_get (data c) PNone) = Inr (Suc k))"
  by (cases "dict_get (data c) PNone") (auto simp: carries_data_def gr0_conv_Suc neq_Nil_conv)

lemma process_image_data:
  assumes "carries_data c"
  shows "process_image i c (n, s) =
     (Suc n,
      case py_lt_int (dict_get (width c) (PInt 0)) 50 of
        Inl e \<Rightarrow> log_image_exception s i e
      | Inr True \<Rightarrow> log_small_image s i c
      | Inr False \<Rightarrow>
          (case py_lt_int (dict_get (height c) (PInt 0)) 50 of
             Inl e \<Rightarrow> log_image_exception s i e
           | Inr True \<Rightarrow> log_small_image s i c
           | Inr False \<Rightarrow> s))"
  using carries_data_len [OF assms]
  by (auto simp: process_image_def inspect_image_def split: sum.splits bool.splits)

lemma process_image_other:
  assumes "\<not> carries_data c" and "\<not> carries_none c"
  shows "\<exists>e. process_image i c (n, s) = (n, log_image_exception s i e)"
  using assms
  by (cases "dict_get (data c) PNone")
     (auto simp: process_image_def inspect_image_def carries_data_def carries_none_def)

lemma failed_image_emits:
  "\<exists>r. errors (log_failed_image s i) = errors s @ [r]
       \<and> error_type r = u ''image_extraction'' \<and> severity r = u ''medium''"
  by (simp add: log_failed_image_def)

lemma small_image_emits:
  "\<exists>r. errors (log_small_image s i c) = errors s @ [r]
       \<and> error_type r = u ''image_extraction'' \<and> severity r = u ''low''"
  by (simp add: log_small_image_def)

lemma image_exception_emits:
  "\<exists>r. errors (log_image_exception s i e) = errors s @ [r]
       \<and> error_type r = u ''image_extraction'' \<and> severity r = u ''high''"
  by (simp add: log_image_exception_def)

lemma medium_neq: "u ''low'' \<noteq> u ''medium''" "u ''high'' \<noteq> u ''medium''"
  by simp_all

lemma process_image_step:
  "\<exists>new. fst (process_image i c (n, s)) = n + (if carries_data c then 1 else 0)
     \<and> errors (snd (process_image i c (n, s))) = errors s @ new
     \<and> length (diagnostics_of (u ''image_extraction'') (u ''medium'') new)
         = (if carries_none c then 1 else 0)"
proof (cases "carries_none c")
  case True
  then have nd: "\<not> carries_data c"
    by (cases "dict_get (data c) PNone") (auto simp: carries_data_def carries_none_def)
  from failed_image_emits [of s i] obtain r where
    "errors (log_failed_image s i) = errors s @ [r]"
    "error_type r = u ''image_extraction''" "severity r = u ''medium''" by blast
  with True nd show ?thesis
    by (intro exI [of _ "[r]"]) (simp add: process_image_none diagnostics_of_def)
next
  case False
  show ?thesis
  proof (cases "carries_data c")
    case cd: True
    let ?s' = "snd (process_image i c (n, s))"
    have "?s' = s \<or> (\<exists>e. ?s' = log_image_exception s i e) \<or> ?s' = log_small_image s i c"
      by (auto simp: process_image_data [OF cd] split: sum.splits bool.splits)
    then have "\<exists>new. errors ?s' = errors s @ new
                 \<and> diagnostics_of (u ''image_extraction'') (u ''medium'') new = []"
      using small_image_emits [of s i c] image_exception_emits [of s i]
      by (fastforce simp: diagnostics_of_def medium_neq)
    with cd False show ?thesis by (auto simp: process_image_data [OF cd])
  next
    case ncd: False
    from process_image_other [OF ncd False, of i n s] obtain e where
      e: "process_image i c (n, s) = (n, log_image_exception s i e)" by blast
    from image_exception_emits [of s i e] obtain r where
      "errors (log_image_exception s i e) = errors s @ [r]"
      "error_type r = u ''image_extraction''" "severity r = u ''high''" by blast
    with e ncd False show ?thesis
      by (intro exI [of _ "[r]"]) (simp add: diagnostics_of_def medium_neq)
  qed
qed

lemma diagnostics_of_append [simp]:
  "diagnostics_of t v (xs @ ys) = diagnostics_of t v xs @ diagnostics_of t v ys"
  by (simp add: diagnostics_of_def)

lemma image_loop_count:
  "\<exists>new. fst (image_loop i cs (n, s)) = n + length (filter carries_data cs)
     \<and> errors (snd (image_loop i cs (n, s))) = errors s @ new
     \<and> length (diagnostics_of (u ''image_extraction'') (u ''medium'') new)
         = length (filter carries_none cs)"
proof (induction cs arbitrary: i n s)
  case Nil
  show ?case by (simp add: diagnostics_of_def)
next
  case (Cons c cs)
  obtain n' s' where st: "process_image i c (n, s) = (n', s')" by (cases "process_image i c (n, s)")
  from process_image_step [of i c n s] st obtain new1 where
    1: "n' = n + (if carries_data c then 1 else 0)" "errors s' = errors s @ new1"
       "length (diagnostics_of (u ''image_extraction'') (u ''medium'') new1)
          = (if carries_none c then 1 else 0)" by auto
  from Cons.IH [of "Suc i" n' s'] obtain new2 where
    2: "fst (image_loop (Suc i) cs (n', s')) = n' + length (filter carries_data cs)"
       "errors (snd (image_loop (Suc i) cs (n', s'))) = errors s' @ new2"
       "length (diagnostics_of (u ''image_extraction'') (u ''medium'') new2)
          = length (filter carries_none cs)" by blast
  show ?case
    using st 1 2 by (intro exI [of _ "new1 @ new2"]) simp
qed

lemma image_quality_loop:
  assumes "cs \<noteq> []"
  shows "\<exists>new. fst (calculate_image_quality s cs tot)
            = of_nat (length (filter carries_data cs)) / of_nat (length cs) * 100
     \<and> errors (snd (calculate_image_quality s cs tot)) = errors s @ new
     \<and> length (diagnostics_of (u ''image_extraction'') (u ''medium'') new)
         = length (filter carries_none cs)"
proof -
  obtain n' s' where st: "image_loop 0 cs (0, s) = (n', s')" by (cases "image_loop 0 cs (0, s)")
  from image_loop_count [of 0 cs 0 s] st obtain new where
    "n' = length (filter carries_data cs)" "errors s' = errors s @ new"
    "length (diagnostics_of (u ''image_extraction'') (u ''medium'') new)
       = length (filter carries_none cs)" by auto
  with assms st show ?thesis
    by (intro exI [of _ new]) (simp add: calculate_image_quality_def)
qed



lemma process_image_absent:
  assumes "carries_data c"
    and "width c = None \<or> (height c = None \<and> (\<exists>v. width c = Some v \<and> is_number v))"
  shows "process_image i c (n, s) = (Suc n, log_small_image s i c)"
proof -
  from assms(2) show ?thesis
  proof
    assume "width c = None"
    then show ?thesis by (simp add: process_image_data [OF assms(1)] dict_get_def)
  next
    assume "height c = None \<and> (\<exists>v. width c = Some v \<and> is_number v)"
    then obtain v where "height c = None" "width c = Some v" "is_number v" by blast
    then show ?thesis
      by (cases v)
         (simp_all add: process_image_data [OF assms(1)] dict_get_def is_number_def
            split: bool.splits)
  qed
qed

lemma small_image_record:
  "\<exists>r. errors (log_small_image s i c) = errors s @ [r]
       \<and> error_type r = u ''image_extraction'' \<and> severity r = u ''low''
       \<and> message r = small_image_message i"
  by (simp add: log_small_image_def small_image_message_def)

lemma process_image_grows:
  "\<exists>new. errors (snd (process_image i c st)) = errors (snd st) @ new"
  using process_image_step [of i c "fst st" "snd st"] by auto

lemma image_loop_grows:
  "\<exists>new. errors (snd (image_loop i cs st)) = errors (snd st) @ new"
  using image_loop_count [of i cs "fst st" "snd st"] by auto

lemma image_loop_small:
  assumes "k < length cs" and "carries_data (cs ! k)"
    and "width (cs ! k) = None
         \<or> (height (cs ! k) = None \<and> (\<exists>v. width (cs ! k) = Some v \<and> is_number v))"
  shows "\<exists>r \<in> set (emitted s (snd (image_loop i cs (n, s)))).
           error_type r = u ''image_extraction'' \<and> severity r = u ''low''
           \<and> message r = small_image_message (i + k)"
  using assms
proof (induction cs arbitrary: i k n s)
  case Nil
  then show ?case by simp
next
  case (Cons c cs)
  show ?case
  proof (cases k)
    case 0
    with Cons.prems have "process_image i c (n, s) = (Suc n, log_small_image s i c)"
      by (simp add: process_image_absent)
    moreover from small_image_record [of s i c] obtain r where
      r: "errors (log_small_image s i c) = errors s @ [r]"
         "error_type r = u ''image_extraction''" "severity r = u ''low''"
         "message r = small_image_message i" by blast
    moreover from image_loop_grows [of "Suc i" cs "(Suc n, log_small_image s i c)"]
    obtain new where
      "errors (snd (image_loop (Suc i) cs (Suc n, log_small_image s i c)))
         = errors (log_small_image s i c) @ new" by auto
    ultimately show ?thesis
      using 0 by (intro bexI [of _ r]) (simp_all add: emitted_def)
  next
    case (Suc k')
    obtain n' s' where st: "process_image i c (n, s) = (n', s')"
      by (cases "process_image i c (n, s)")
    from process_image_grows [of i c "(n, s)"] st obtain new1 where
      g: "errors s' = errors s @ new1" by auto
    from Cons.prems Suc have "k' < length cs" "carries_data (cs ! k')"
      "width (cs ! k') = None
         \<or> (height (cs ! k') = None \<and> (\<exists>v. width (cs ! k') = Some v \<and> is_number v))"
      by simp_all
    from Cons.IH [OF this, of s' "Suc i" n'] obtain r where
      r: "r \<in> set (emitted s' (snd (image_loop (Suc i) cs (n', s'))))"
         "error_type r = u ''image_extraction''" "severity r = u ''low''"
         "message r = small_image_message (Suc i + k')" by blast
    from r(1) g have "r \<in> set (emitted s (snd (image_loop (Suc i) cs (n', s'))))"
      using set_drop_subset_set_drop
              [of "length (errors s)" "length (errors s')"
                  "errors (snd (image_loop (Suc i) cs (n', s')))"]
      unfolding emitted_def by auto
    with r st Suc show ?thesis by (intro bexI [of _ r]) simp_all
  qed
qed


text \<open>
  C10, as amended. A candidate that carries non-empty data and whose width key is
  absent, or whose height key is absent while its width holds a number, is counted as a
  successful extraction, and a \<open>low\<close> \<open>image_extraction\<close> diagnostic with the message
  "Image k+1 de tres petite taille" is logged for it: the absent dimension is read as 0.
\<close>

theorem absent_dimension_small_image:
  assumes "k < length cs" and "carries_data (cs ! k)"
    and "width (cs ! k) = None
         \<or> (height (cs ! k) = None \<and> (\<exists>v. width (cs ! k) = Some v \<and> is_number v))"
  shows "process_image k (cs ! k) (n, s) = (Suc n, log_small_image s k (cs ! k))
     \<and> fst (calculate_image_quality self cs tot)
         = of_nat (length (filter carries_data cs)) / of_nat (length cs) * 100
     \<and> (\<exists>r \<in> set (emitted self (snd (calculate_image_quality self cs tot))).
           error_type r = u ''image_extraction'' \<and> severity r = u ''low''
           \<and> message r = small_image_message k)"
proof -
  from assms(1) have ne: "cs \<noteq> []" by auto
  have 1: "process_image k (cs ! k) (n, s) = (Suc n, log_small_image s k (cs ! k))"
    using assms(2,3) by (rule process_image_absent)
  have 2: "fst (calculate_image_quality self cs tot)
         = of_nat (length (filter carries_data cs)) / of_nat (length cs) * 100"
    using image_quality_loop [OF ne, of self tot] by blast
  have "snd (calculate_image_quality self cs tot) = snd (image_loop 0 cs (0, self))"
    using ne by (simp add: calculate_image_quality_def split: prod.splits)
  with image_loop_small [OF assms, of self 0 0]
  have 3: "\<exists>r \<in> set (emitted self (snd (calculate_image_quality self cs tot))).
           error_type r = u ''image_extraction'' \<and> severity r = u ''low''
           \<and> message r = small_image_message k" by simp
  from 1 2 3 show ?thesis by blast
qed

theorem absent_dimension_small_image_witness:
  "(0::nat) < length [\<lparr>data = Some (PBytes [1]), width = Some (PInt 100), height = None\<rparr>]
   \<and> carries_data \<lparr>data = Some (PBytes [1]), width = Some (PInt 100), height = None\<rparr>
   \<and> fst (calculate_image_quality init_processor
            [\<lparr>data = Some (PBytes [1]), width = Some (PInt 100), height = None\<rparr>] None) = 100
   \<and> (\<exists>r \<in> set (emitted init_processor (snd (calculate_image_quality init_processor
            [\<lparr>data = Some (PBytes [1]), width = Some (PInt 100), height = None\<rparr>] None))).
           error_type r = u ''image_extraction'' \<and> severity r = u ''low''
           \<and> message r = small_image_message 0)"
proof -
  let ?c = "\<lparr>data = Some (PBytes [1]), width = Some (PInt 100), height = None\<rparr>"
  have h1: "0 < length [?c]" by simp
  have h2: "carries_data ([?c] ! 0)" by (simp add: carries_data_def dict_get_def)
  have h3: "width ([?c] ! 0) = None
         \<or> (height ([?c] ! 0) = None \<and> (\<exists>v. width ([?c] ! 0) = Some v \<and> is_number v))"
    by (simp add: is_number_def)
  have c: "length (filter carries_data [?c]) = 1" using h2 by simp
  from absent_dimension_small_image [OF h1 h2 h3, of 0 init_processor init_processor None] c h2
  show ?thesis by simp
qed

text \<open>
  The claim as first stated fails when the height key is absent and the width key holds
  Python's \<open>None\<close>: the comparison \<open>None < 50\<close> raises \<open>TypeError\<close> before the height is
  read, the handler of line 153 logs a \<open>high\<close> diagnostic, and no \<open>low\<close> one is logged.
\<close>

theorem absent_dimension_counterexample:
  "carries_data \<lparr>data = Some (PBytes [1]), width = Some PNone, height = None\<rparr>
   \<and> height \<lparr>data = Some (PBytes [1]), width = Some PNone, height = None\<rparr> = None
   \<and> fst (calculate_image_quality init_processor
            [\<lparr>data = Some (PBytes [1]), width = Some PNone, height = None\<rparr>] None) = 100
   \<and> map severity (emitted init_processor (snd (calculate_image_quality init_processor
            [\<lparr>data = Some (PBytes [1]), width = Some PNone, height = None\<rparr>] None)))
       = [u ''high'']
   \<and> diagnostics_of (u ''image_extraction'') (u ''low'')
        (emitted init_processor (snd (calculate_image_quality init_processor
            [\<lparr>data = Some (PBytes [1]), width = Some PNone, height = None\<rparr>] None))) = []"
  by (simp add: carries_data_def dict_get_def calculate_image_quality_def process_image_def
        inspect_image_def log_image_exception_def emitted_def init_processor_def
        diagnostics_of_def)

subsection \<open>Table quality\<close>

lemma contains_count: "sub \<noteq> [] \<Longrightarrow> py_contains sub s = (0 < count_from sub s)"
  by (induction sub s rule: count_from.induct) auto

lemma contains_py_count: "sub \<noteq> [] \<Longrightarrow> py_contains sub s = (0 < py_count sub s)"
  by (simp add: py_count_def contains_count)

text \<open>
  C5. The table quality is 100 whenever \<open>has_tables\<close> is false or absent, whatever the
  content. With \<open>has_tables\<close> true: when the content has no \<open><table>\<close>, no pipe and no
  tab it is 20 and exactly one \<open>high\<close> \<open>table_parsing\<close> diagnostic is logged; when the
  content has three \<open><table>\<close> and two \<open></table>\<close> it is 60 and exactly one \<open>medium\<close>
  diagnostic is logged, whose details report \<open>incomplete_tables = 1\<close>; when indicators
  are present and the two counts are equal it is 85 and nothing is logged.
\<close>

theorem table_quality_cases:
  "(has_tables fi \<noteq> Some True \<longrightarrow> calculate_table_quality self c fi = (100, self))
   \<and> (has_tables fi = Some True \<and> py_count (u ''<table>'') c = 0 \<and> py_count (u ''|'') c = 0
        \<and> py_count [9] c = 0 \<longrightarrow>
        fst (calculate_table_quality self c fi) = 20
        \<and> (\<exists>r. emitted self (snd (calculate_table_quality self c fi)) = [r]
               \<and> error_type r = u ''table_parsing'' \<and> severity r = u ''high''))
   \<and> (has_tables fi = Some True \<and> py_count (u ''<table>'') c = 3
        \<and> py_count (u ''</table>'') c = 2 \<longrightarrow>
        fst (calculate_table_quality self c fi) = 60
        \<and> (\<exists>r. emitted self (snd (calculate_table_quality self c fi)) = [r]
               \<and> error_type r = u ''table_parsing'' \<and> severity r = u ''medium''
               \<and> details r = Some [(u ''incomplete_tables'', PInt 1)]))
   \<and> (has_tables fi = Some True
        \<and> 0 < py_count (u ''<table>'') c + py_count (u ''|'') c + py_count [9] c
        \<and> py_count (u ''<table>'') c = py_count (u ''</table>'') c \<longrightarrow>
        calculate_table_quality self c fi = (85, self))"
proof -
  have t: "py_contains (u ''<table>'') c = (0 < py_count (u ''<table>'') c)"
    by (rule contains_py_count) simp
  have a: "has_tables fi \<noteq> Some True \<longrightarrow> calculate_table_quality self c fi = (100, self)"
    by (cases "has_tables fi") (auto simp: calculate_table_quality_def)
  have b: "has_tables fi = Some True \<and> py_count (u ''<table>'') c = 0 \<and> py_count (u ''|'') c = 0
        \<and> py_count [9] c = 0 \<longrightarrow>
        fst (calculate_table_quality self c fi) = 20
        \<and> (\<exists>r. emitted self (snd (calculate_table_quality self c fi)) = [r]
               \<and> error_type r = u ''table_parsing'' \<and> severity r = u ''high'')"
    by (simp add: calculate_table_quality_def emitted_def)
  have d: "has_tables fi = Some True \<and> py_count (u ''<table>'') c = 3
        \<and> py_count (u ''</table>'') c = 2 \<longrightarrow>
        fst (calculate_table_quality self c fi) = 60
        \<and> (\<exists>r. emitted self (snd (calculate_table_quality self c fi)) = [r]
               \<and> error_type r = u ''table_parsing'' \<and> severity r = u ''medium''
               \<and> details r = Some [(u ''incomplete_tables'', PInt 1)])"
    using t by (simp add: calculate_table_quality_def emitted_def Let_def)
  have e: "has_tables fi = Some True
        \<and> 0 < py_count (u ''<table>'') c + py_count (u ''|'') c + py_count [9] c
        \<and> py_count (u ''<table>'') c = py_count (u ''</table>'') c \<longrightarrow>
        calculate_table_quality self c fi = (85, self)"
    by (auto simp: calculate_table_quality_def Let_def)
  show ?thesis by (intro conjI a b d e)
qed

theorem table_quality_cases_witness:
  "calculate_table_quality init_processor (u ''<table>|'')
      \<lparr>has_tables = Some False, has_images = None\<rparr> = (100, init_processor)
   \<and> fst (calculate_table_quality init_processor (u ''no indicator'')
      \<lparr>has_tables = Some True, has_images = None\<rparr>) = 20
   \<and> fst (calculate_table_quality init_processor (u ''<table><table><table></table></table>'')
      \<lparr>has_tables = Some True, has_images = None\<rparr>) = 60
   \<and> calculate_table_quality init_processor (u ''<table>a|b</table>'')
      \<lparr>has_tables = Some True, has_images = None\<rparr> = (85, init_processor)"
proof -
  let ?t = "\<lparr>has_tables = Some True, has_images = None\<rparr>"
  let ?f = "\<lparr>has_tables = Some False, has_images = None\<rparr>"
  have 1: "has_tables ?f \<noteq> Some True" by simp
  have 2: "has_tables ?t = Some True \<and> py_count (u ''<table>'') (u ''no indicator'') = 0
           \<and> py_count (u ''|'') (u ''no indicator'') = 0 \<and> py_count [9] (u ''no indicator'') = 0"
    by (simp add: py_count_def startswith_def)
  have 3: "has_tables ?t = Some True
           \<and> py_count (u ''<table>'') (u ''<table><table><table></table></table>'') = 3
           \<and> py_count (u ''</table>'') (u ''<table><table><table></table></table>'') = 2"
    by (simp add: py_count_def startswith_def)
  have 4: "has_tables ?t = Some True
           \<and> 0 < py_count (u ''<table>'') (u ''<table>a|b</table>'')
                 + py_count (u ''|'') (u ''<table>a|b</table>'')
                 + py_count [9] (u ''<table>a|b</table>'')
           \<and> py_count (u ''<table>'') (u ''<table>a|b</table>'')
               = py_count (u ''</table>'') (u ''<table>a|b</table>'')"
    by (simp add: py_count_def startswith_def)
  have w1: "calculate_table_quality init_processor (u ''<table>|'') ?f = (100, init_processor)"
    using 1 table_quality_cases [of ?f init_processor "u ''<table>|''", THEN conjunct1]
    by (rule rev_mp)
  have w2: "fst (calculate_table_quality init_processor (u ''no indicator'') ?t) = 20"
    using 2 table_quality_cases [of ?t init_processor "u ''no indicator''",
                                 THEN conjunct2, THEN conjunct1]
    by (rule rev_mp [THEN conjunct1])
  have w3: "fst (calculate_table_quality init_processor
                   (u ''<table><table><table></table></table>'') ?t) = 60"
    using 3 table_quality_cases [of ?t init_processor "u ''<table><table><table></table></table>''",
                                 THEN conjunct2, THEN conjunct2, THEN conjunct1]
    by (rule rev_mp [THEN conjunct1])
  have w4: "calculate_table_quality init_processor (u ''<table>a|b</table>'') ?t
              = (85, init_processor)"
    using 4 table_quality_cases [of ?t init_processor "u ''<table>a|b</table>''",
                                 THEN conjunct2, THEN conjunct2, THEN conjunct2]
    by (rule rev_mp)
  from w1 w2 w3 w4 show ?thesis by (intro conjI)
qed

subsection \<open>Metrics aggregator\<close>

lemma log_counters [simp]:
  "total_elements_detected (log_extraction_error self etype sev msg dets page elem fix)
     = total_elements_detected self"
  "total_elements_extracted (log_extraction_error self etype sev msg dets page elem fix)
     = total_elements_extracted self"
  by (simp_all add: log_extraction_error_def Let_def)

lemma text_quality_counters [simp]:
  "total_elements_detected (snd (calculate_text_quality self t e)) = total_elements_detected self"
  "total_elements_extracted (snd (calculate_text_quality self t e)) = total_elements_extracted self"
  by (simp_all add: calculate_text_quality_def Let_def split: prod.splits)

lemma process_image_counters:
  "total_elements_detected (snd (process_image i c st)) = total_elements_detected (snd st)
   \<and> total_elements_extracted (snd (process_image i c st)) = total_elements_extracted (snd st)"
proof -
  obtain n s where st: "st = (n, s)" by (cases st)
  consider "carries_none c" | "carries_data c" | "\<not> carries_none c" "\<not> carries_data c" by blast
  then show ?thesis
  proof cases
    case 1
    then show ?thesis by (simp add: st process_image_none log_failed_image_def)
  next
    case 2
    then show ?thesis
      by (simp add: st process_image_data log_small_image_def log_image_exception_def
            split: sum.splits bool.splits)
  next
    case 3
    from process_image_other [OF 3(2) 3(1), of i n s] show ?thesis
      by (auto simp: st log_image_exception_def)
  qed
qed

lemma image_loop_counters:
  "total_elements_detected (snd (image_loop i cs st)) = total_elements_detected (snd st)
   \<and> total_elements_extracted (snd (image_loop i cs st)) = total_elements_extracted (snd st)"
  by (induction cs arbitrary: i st) (simp_all add: process_image_counters)

lemma image_quality_counters [simp]:
  "total_elements_detected (snd (calculate_image_quality self cs tot)) = total_elements_detected self"
  "total_elements_extracted (snd (calculate_image_quality self cs tot)) = total_elements_extracted self"
  using image_loop_counters [of 0 cs "(0, self)"]
  by (auto simp: calculate_image_quality_def split: option.splits prod.splits)

lemma table_quality_counters [simp]:
  "total_elements_detected (snd (calculate_table_quality self c fi)) = total_elements_detected self"
  "total_elements_extracted (snd (calculate_table_quality self c fi)) = total_elements_extracted self"
  by (simp_all add: calculate_table_quality_def Let_def)

lemma update_counters:
  "\<exists>a b. total_elements_detected (update_extraction_metrics self result)
            = total_elements_detected self + 1 + a
        \<and> total_elements_extracted (update_extraction_metrics self result)
            = total_elements_extracted self + b
        \<and> 0 \<le> b \<and> b \<le> 1 + a"
proof -
  define imgs where "imgs = (case res_images result of None \<Rightarrow> [] | Some l \<Rightarrow> l)"
  define fi where "fi = (case res_format_info result of
               None \<Rightarrow> \<lparr>has_tables = None, has_images = None\<rparr> | Some f \<Rightarrow> f)"
  define cont where "cont = (case res_content result of None \<Rightarrow> [] | Some c \<Rightarrow> c)"
  define fc where "fc = (case res_formatted_content result of None \<Rightarrow> [] | Some c \<Rightarrow> c)"
  define n0 where "n0 = (if imgs \<noteq> [] then int (length imgs) else 0)"
  define tid where "tid = (if has_images fi = Some True then max n0 1 else n0)"
  define k where "k = int (length (filter (\<lambda>img. py_truthy (dict_get (data img) PNone)) imgs))"
  define tdet :: int where "tdet = (if has_tables fi = Some True then 1 else 0)"
  define tex :: int where
    "tex = (if has_tables fi = Some True
               \<and> (\<exists>indicator \<in> set [u ''<table>'', u ''|'', [9]]. py_contains indicator fc)
             then 1 else 0)"
  define cflag :: int where "cflag = (if cont \<noteq> [] then 1 else 0)"
  have D: "total_elements_detected (update_extraction_metrics self result)
             = total_elements_detected self + 1 + (tid + tdet)"
    unfolding tid_def tdet_def n0_def imgs_def fi_def
    by (simp add: update_extraction_metrics_def Let_def split_beta)
  have E: "total_elements_extracted (update_extraction_metrics self result)
             = total_elements_extracted self + (cflag + k + tex)"
    unfolding tex_def cflag_def k_def imgs_def fi_def cont_def fc_def
    by (simp add: update_extraction_metrics_def Let_def split_beta)
  have "k \<le> int (length imgs)" by (simp add: k_def)
  moreover have "int (length imgs) \<le> n0" by (simp add: n0_def)
  moreover have "n0 \<le> tid" by (simp add: tid_def)
  moreover have "tex \<le> tdet" by (simp add: tex_def tdet_def)
  moreover have "0 \<le> tex" "0 \<le> cflag" "cflag \<le> 1" "0 \<le> k"
    by (simp_all add: tex_def cflag_def k_def)
  ultimately have "0 \<le> cflag + k + tex \<and> cflag + k + tex \<le> 1 + (tid + tdet)" by linarith
  with D E show ?thesis by blast
qed

text \<open>
  C9. After one call of \<open>update_extraction_metrics\<close> on a fresh accumulator, for any
  extraction result, the extracted count is at most the detected count, and the
  precision computed from the two is at most 100.
\<close>

theorem single_update_invariant:
  "total_elements_extracted (update_extraction_metrics init_processor result)
     \<le> total_elements_detected (update_extraction_metrics init_processor result)
   \<and> precision (update_extraction_metrics init_processor result) \<le> 100"
proof -
  let ?s = "update_extraction_metrics init_processor result"
  from update_counters [of init_processor result] obtain a b where
    ab: "total_elements_detected ?s = total_elements_detected init_processor + 1 + a"
        "total_elements_extracted ?s = total_elements_extracted init_processor + b"
        "0 \<le> b" "b \<le> 1 + a" by blast
  then have le: "total_elements_extracted ?s \<le> total_elements_detected ?s"
    by (simp add: init_processor_def)
  have "precision ?s \<le> 100"
  proof (cases "total_elements_detected ?s > 0")
    case True
    then show ?thesis using le by (simp add: precision_def pos_divide_le_eq)
  next
    case False
    then show ?thesis by (simp add: precision_def)
  qed
  with le show ?thesis by simp
qed

theorem single_update_invariant_witness:
  "total_elements_detected (update_extraction_metrics init_processor example_result) = 4
   \<and> total_elements_extracted (update_extraction_metrics init_processor example_result) = 2
   \<and> total_elements_extracted (update_extraction_metrics init_processor example_result)
       \<le> total_elements_detected (update_extraction_metrics init_processor example_result)
   \<and> precision (update_extraction_metrics init_processor example_result) \<le> 100"
proof -
  have "total_elements_detected (update_extraction_metrics init_processor example_result) = 4
   \<and> total_elements_extracted (update_extraction_metrics init_processor example_result) = 2"
    by (simp add: update_extraction_metrics_def Let_def split_beta example_result_def
          init_processor_def dict_get_def startswith_def)
  with single_update_invariant [of example_result] show ?thesis by simp
qed

subsection \<open>Image processor\<close>

lemma save_image_decoded:
  assumes "pil_open P d = Inr img" and "optimize_image self P img = Inr opt"
  shows "save_image self P d f =
     (if pil_mode P opt = u ''RGBA'' then
        (case pil_save P opt PNG \<lparr>opt_quality = None, opt_optimize = True\<rparr> of
           Inr out \<Rightarrow> \<lparr>cf_content = out, cf_name = f\<rparr>
         | Inl e \<Rightarrow> \<lparr>cf_content = d, cf_name = f\<rparr>)
      else
        (case pil_save P opt JPEG \<lparr>opt_quality = Some (quality self), opt_optimize = True\<rparr> of
           Inr out \<Rightarrow> \<lparr>cf_content = out, cf_name = py_replace (u ''.png'') (u ''.jpg'') f\<rparr>
         | Inl e \<Rightarrow> \<lparr>cf_content = d, cf_name = f\<rparr>))"
  using assms
  by (simp add: save_image_def save_image_try_def output_format_def split: sum.splits)

text \<open>
  C7, as amended. For every input that decodes and passes the optimisation step,
  \<open>save_image\<close> writes the optimised image as PNG when its mode is \<open>RGBA\<close>, keeping
  the file name, and otherwise hands it to the JPEG writer at quality 92, renaming
  \<open>.png\<close> to \<open>.jpg\<close>; when the writer raises, the original bytes and name are returned.
\<close>

theorem save_image_format:
  assumes "pil_open P d = Inr img" and "optimize_image init_image_processor P img = Inr opt"
  shows "save_image init_image_processor P d f =
     (if pil_mode P opt = u ''RGBA'' then
        (case pil_save P opt PNG \<lparr>opt_quality = None, opt_optimize = True\<rparr> of
           Inr out \<Rightarrow> \<lparr>cf_content = out, cf_name = f\<rparr>
         | Inl e \<Rightarrow> \<lparr>cf_content = d, cf_name = f\<rparr>)
      else
        (case pil_save P opt JPEG \<lparr>opt_quality = Some 92, opt_optimize = True\<rparr> of
           Inr out \<Rightarrow> \<lparr>cf_content = out, cf_name = py_replace (u ''.png'') (u ''.jpg'') f\<rparr>
         | Inl e \<Rightarrow> \<lparr>cf_content = d, cf_name = f\<rparr>))"
  using save_image_decoded [OF assms, of f] by (simp add: init_image_processor_def)

lemma sample_open:
  "pil_open sample_pil rgba_png = Inr \<lparr>s_mode = u ''RGBA'', s_size = (400, 300)\<rparr>"
  "pil_open sample_pil gray_alpha_png = Inr \<lparr>s_mode = u ''LA'', s_size = (400, 300)\<rparr>"
  "pil_open sample_pil rgb_jpeg = Inr \<lparr>s_mode = u ''RGB'', s_size = (400, 300)\<rparr>"
  "pil_open sample_pil [0, 1, 2] = Inl (LibraryError (u ''cannot identify image file''))"
  by (simp_all add: sample_pil_def rgb_jpeg_def rgba_png_def gray_alpha_png_def)

lemma sample_mode: "pil_mode sample_pil img = s_mode img"
  by (simp add: sample_pil_def)

lemma sample_save:
  "pil_save sample_pil img PNG opts = Inr [137, 80, 78, 71, 0]"
  "pil_save sample_pil img JPEG opts =
     (if s_mode img \<in> set [u ''1'', u ''L'', u ''RGB'', u ''RGBX'', u ''CMYK'', u ''YCbCr'']
      then Inr [255, 216, 255, 219]
      else Inl (LibraryError (u ''cannot write mode '' @ s_mode img @ u '' as JPEG'')))"
  by (simp_all add: sample_pil_def)

lemma sample_optimize:
  "optimize_image init_image_processor sample_pil \<lparr>s_mode = m, s_size = (400, 300)\<rparr>
     = Inr \<lparr>s_mode = m, s_size = (400, 300)\<rparr>"
  by (simp add: optimize_image_def sample_pil_def init_image_processor_def)

text \<open>
  The claim as first stated fails for an image with an alpha channel whose mode is not
  \<open>RGBA\<close>: for mode \<open>LA\<close> line 29 selects JPEG, the test of line 33 is false, the JPEG
  writer refuses the mode, and the original bytes come back; nothing is encoded as PNG.
\<close>

theorem save_image_format_counterexample:
  "pil_open sample_pil gray_alpha_png = Inr \<lparr>s_mode = u ''LA'', s_size = (400, 300)\<rparr>
   \<and> has_alpha_channel (u ''LA'')
   \<and> output_format (u ''LA'') = JPEG
   \<and> save_image init_image_processor sample_pil gray_alpha_png (u ''7_image_0.png'')
       = \<lparr>cf_content = gray_alpha_png, cf_name = u ''7_image_0.png''\<rparr>"
  by (simp add: save_image_def save_image_try_def sample_open sample_mode sample_save
        sample_optimize output_format_def has_alpha_channel_def)

theorem save_image_format_witness:
  "pil_open sample_pil rgba_png = Inr \<lparr>s_mode = u ''RGBA'', s_size = (400, 300)\<rparr>
   \<and> optimize_image init_image_processor sample_pil \<lparr>s_mode = u ''RGBA'', s_size = (400, 300)\<rparr>
       = Inr \<lparr>s_mode = u ''RGBA'', s_size = (400, 300)\<rparr>
   \<and> save_image init_image_processor sample_pil rgba_png (u ''7_image_0.png'')
       = \<lparr>cf_content = [137, 80, 78, 71, 0], cf_name = u ''7_image_0.png''\<rparr>
   \<and> pil_open sample_pil rgb_jpeg = Inr \<lparr>s_mode = u ''RGB'', s_size = (400, 300)\<rparr>
   \<and> optimize_image init_image_processor sample_pil \<lparr>s_mode = u ''RGB'', s_size = (400, 300)\<rparr>
       = Inr \<lparr>s_mode = u ''RGB'', s_size = (400, 300)\<rparr>
   \<and> save_image init_image_processor sample_pil rgb_jpeg (u ''7_image_0.png'')
       = \<lparr>cf_content = [255, 216, 255, 219], cf_name = u ''7_image_0.jpg''\<rparr>"
proof -
  note o1 = sample_open(1) and o2 = sample_open(3)
  have w1: "save_image init_image_processor sample_pil rgba_png (u ''7_image_0.png'')
       = \<lparr>cf_content = [137, 80, 78, 71, 0], cf_name = u ''7_image_0.png''\<rparr>"
    using save_image_format [OF o1 sample_optimize, of "u ''7_image_0.png''"]
    by (simp add: sample_mode sample_save)
  have w2: "save_image init_image_processor sample_pil rgb_jpeg (u ''7_image_0.png'')
       = \<lparr>cf_content = [255, 216, 255, 219], cf_name = u ''7_image_0.jpg''\<rparr>"
    using save_image_format [OF o2 sample_optimize, of "u ''7_image_0.png''"]
    by (simp add: sample_mode sample_save py_replace_def startswith_def)
  from o1 o2 w1 w2 sample_optimize show ?thesis by (intro conjI)
qed

text \<open>
  C8. Whatever the library does, \<open>save_image\<close> and \<open>convert_to_web_format\<close> return a
  value: when the \<open>try\<close> body raises (in particular when decoding, the optimisation
  step or the writer raises) \<open>save_image\<close> returns the original bytes under the original
  name and \<open>convert_to_web_format\<close> returns the original bytes; in every case the bytes
  returned are the original ones or the output of a successful write.
\<close>

theorem image_processing_falls_back:
  "(save_image_try self P d f = Inl e \<longrightarrow>
      save_image self P d f = \<lparr>cf_content = d, cf_name = f\<rparr>)
   \<and> (pil_open P d = Inl e \<longrightarrow> save_image self P d f = \<lparr>cf_content = d, cf_name = f\<rparr>)
   \<and> (pil_open P d = Inr img \<and> optimize_image self P img = Inl e \<longrightarrow>
        save_image self P d f = \<lparr>cf_content = d, cf_name = f\<rparr>)
   \<and> (pil_open P d = Inr img \<and> optimize_image self P img = Inr opt
        \<and> pil_mode P opt = u ''RGBA''
        \<and> pil_save P opt PNG \<lparr>opt_quality = None, opt_optimize = True\<rparr> = Inl e \<longrightarrow>
        save_image self P d f = \<lparr>cf_content = d, cf_name = f\<rparr>)
   \<and> (pil_open P d = Inr img \<and> optimize_image self P img = Inr opt
        \<and> pil_mode P opt \<noteq> u ''RGBA''
        \<and> pil_save P opt JPEG \<lparr>opt_quality = Some (quality self), opt_optimize = True\<rparr> = Inl e
        \<longrightarrow> save_image self P d f = \<lparr>cf_content = d, cf_name = f\<rparr>)
   \<and> (cf_content (save_image self P d f) = d
        \<or> (\<exists>img' fmt opts. pil_save P img' fmt opts = Inr (cf_content (save_image self P d f))))
   \<and> (convert_to_web_format_try P d = Inl e \<longrightarrow> convert_to_web_format P d = d)
   \<and> (pil_open P d = Inl e \<longrightarrow> convert_to_web_format P d = d)
   \<and> (convert_to_web_format P d = d
        \<or> (\<exists>img' opts. pil_save P img' JPEG opts = Inr (convert_to_web_format P d)))"
proof -
  have 1: "save_image_try self P d f = Inl e \<longrightarrow>
      save_image self P d f = \<lparr>cf_content = d, cf_name = f\<rparr>"
    by (simp add: save_image_def)
  have 2: "pil_open P d = Inl e \<longrightarrow> save_image self P d f = \<lparr>cf_content = d, cf_name = f\<rparr>"
    by (simp add: save_image_def save_image_try_def)
  have 3: "pil_open P d = Inr img \<and> optimize_image self P img = Inl e \<longrightarrow>
        save_image self P d f = \<lparr>cf_content = d, cf_name = f\<rparr>"
    by (simp add: save_image_def save_image_try_def)
  have 4: "pil_open P d = Inr img \<and> optimize_image self P img = Inr opt
        \<and> pil_mode P opt = u ''RGBA''
        \<and> pil_save P opt PNG \<lparr>opt_quality = None, opt_optimize = True\<rparr> = Inl e \<longrightarrow>
        save_image self P d f = \<lparr>cf_content = d, cf_name = f\<rparr>"
    by (auto simp: save_image_decoded)
  have 5: "pil_open P d = Inr img \<and> optimize_image self P img = Inr opt
        \<and> pil_mode P opt \<noteq> u ''RGBA''
        \<and> pil_save P opt JPEG \<lparr>opt_quality = Some (quality self), opt_optimize = True\<rparr> = Inl e
        \<longrightarrow> save_image self P d f = \<lparr>cf_content = d, cf_name = f\<rparr>"
    by (auto simp: save_image_decoded)
  have 6: "cf_content (save_image self P d f) = d
        \<or> (\<exists>img' fmt opts. pil_save P img' fmt opts = Inr (cf_content (save_image self P d f)))"
  proof (cases "pil_open P d")
    case (Inl x)
    then show ?thesis by (simp add: save_image_def save_image_try_def)
  next
    case op: (Inr img0)
    show ?thesis
    proof (cases "optimize_image self P img0")
      case (Inl x)
      with op show ?thesis by (simp add: save_image_def save_image_try_def)
    next
      case (Inr opt0)
      show ?thesis
        unfolding save_image_decoded [OF op Inr]
        by (cases "pil_save P opt0 PNG \<lparr>opt_quality = None, opt_optimize = True\<rparr>";
            cases "pil_save P opt0 JPEG \<lparr>opt_quality = Some (quality self), opt_optimize = True\<rparr>")
           (simp_all, blast+)
    qed
  qed
  have 7: "convert_to_web_format_try P d = Inl e \<longrightarrow> convert_to_web_format P d = d"
    by (simp add: convert_to_web_format_def)
  have 8: "pil_open P d = Inl e \<longrightarrow> convert_to_web_format P d = d"
    by (simp add: convert_to_web_format_def convert_to_web_format_try_def)
  have 9: "convert_to_web_format P d = d
        \<or> (\<exists>img' opts. pil_save P img' JPEG opts = Inr (convert_to_web_format P d))"
  proof (cases "convert_to_web_format_try P d")
    case (Inl x)
    then show ?thesis by (simp add: convert_to_web_format_def)
  next
    case (Inr out)
    then have "\<exists>img' opts. pil_save P img' JPEG opts = Inr out"
      unfolding convert_to_web_format_try_def Let_def
      by (simp split: sum.splits if_splits) blast+
    with Inr show ?thesis by (simp add: convert_to_web_format_def)
  qed
  show ?thesis by (intro conjI 1 2 3 4 5 6 7 8 9)
qed

theorem image_processing_falls_back_witness:
  "pil_open sample_pil [0, 1, 2] = Inl (LibraryError (u ''cannot identify image file''))
   \<and> save_image init_image_processor sample_pil [0, 1, 2] (u ''7_image_0.png'')
       = \<lparr>cf_content = [0, 1, 2], cf_name = u ''7_image_0.png''\<rparr>
   \<and> convert_to_web_format sample_pil [0, 1, 2] = [0, 1, 2]"
proof -
  note o = sample_open(4)
  note t = image_processing_falls_back
             [of init_image_processor sample_pil "[0, 1, 2]" "u ''7_image_0.png''"
                 "LibraryError (u ''cannot identify image file'')"]
  have a: "save_image init_image_processor sample_pil [0, 1, 2] (u ''7_image_0.png'')
       = \<lparr>cf_content = [0, 1, 2], cf_name = u ''7_image_0.png''\<rparr>"
    using o t [THEN conjunct2, THEN conjunct1] by (rule rev_mp)
  have b: "convert_to_web_format sample_pil [0, 1, 2] = [0, 1, 2]"
    using o t [THEN conjunct2, THEN conjunct2, THEN conjunct2, THEN conjunct2, THEN conjunct2,
               THEN conjunct2, THEN conjunct2, THEN conjunct1]
    by (rule rev_mp)
  from o a b show ?thesis by (intro conjI)
qed

end
